theory Spec2Isabelle
  imports Main
begin

section \<open>Python values, exceptions and strings\<close>

text \<open>
  The three scripts exchange JSON documents with the Freshservice and HRMS services.
  A decoded document is a \<open>json\<close> value; a Python dict is an association list in
  insertion order with distinct keys, \<open>None\<close> is \<open>JNull\<close>.  Strings are sequences
  of code points below 256.
\<close>

datatype json =
    JNull
  | JBool bool
  | JNum int
  | JStr string
  | JArr "json list"
  | JObj "(string \<times> json) list"

record response =
  status_code :: int
  resp_text :: string
  parsed :: "json option"

datatype py_exc =
    NameError string
  | ValueError string
  | KeyError string
  | IndexError
  | AttributeError string
  | TypeError string
  | JSONDecodeError
  | HTTPError response
  | ConnectionError
  | OSError string

text \<open>\<open>str.isspace\<close> on one code point below 256, as \<open>str.strip\<close> and the regular
  expression class \<open>\s\<close> use it.\<close>

definition py_isspace :: "char \<Rightarrow> bool" where
  "py_isspace c =
     (let n = (of_char c :: nat)
      in (9 \<le> n \<and> n \<le> 13) \<or> (28 \<le> n \<and> n \<le> 32) \<or> n = 133 \<or> n = 160)"

definition py_strip :: "string \<Rightarrow> string" where
  "py_strip s = rev (dropWhile py_isspace (rev (dropWhile py_isspace s)))"

text \<open>The class \<open>\d\<close> on code points below 256: the ASCII digits.\<close>

definition is_digit :: "char \<Rightarrow> bool" where
  "is_digit c = (let n = (of_char c :: nat) in 48 \<le> n \<and> n \<le> 57)"

definition digit_val :: "char \<Rightarrow> nat" where
  "digit_val c = of_char c - 48"

definition digit_char :: "nat \<Rightarrow> char" where
  "digit_char n = char_of (48 + n)"

section \<open>freshservice\_hrms\_termination.py: convert\_date\_format\<close>

text \<open>
  \<open>datetime.strptime(date_str, "%m/%d/%Y")\<close> compiles the format into the regular
  expression
  \<^verbatim>\<open>(?P<m>1[0-2]|0[1-9]|[1-9])/(?P<d>3[0-1]|[1-2]\d|0[1-9]|[1-9]| [1-9])/(?P<Y>\d\d\d\d)\<close>
  matches it at the start of the string, and raises \<open>ValueError\<close> when it does not
  match or when unconverted data remains.  Each group is modelled as the list of its
  successful alternatives, in the order in which the backtracking matcher tries them.
\<close>

definition re_m :: "string \<Rightarrow> (nat \<times> string) list" where
  "re_m s =
     (case s of a # b # r \<Rightarrow>
        (if a = CHR ''1'' \<and> b \<in> {CHR ''0'', CHR ''1'', CHR ''2''}
         then [(10 + digit_val b, r)] else [])
      | _ \<Rightarrow> [])
     @ (case s of a # b # r \<Rightarrow>
        (if a = CHR ''0'' \<and> is_digit b \<and> b \<noteq> CHR ''0'' then [(digit_val b, r)] else [])
      | _ \<Rightarrow> [])
     @ (case s of a # r \<Rightarrow>
        (if is_digit a \<and> a \<noteq> CHR ''0'' then [(digit_val a, r)] else [])
      | _ \<Rightarrow> [])"

definition re_d :: "string \<Rightarrow> (nat \<times> string) list" where
  "re_d s =
     (case s of a # b # r \<Rightarrow>
        (if a = CHR ''3'' \<and> b \<in> {CHR ''0'', CHR ''1''} then [(30 + digit_val b, r)] else [])
      | _ \<Rightarrow> [])
     @ (case s of a # b # r \<Rightarrow>
        (if a \<in> {CHR ''1'', CHR ''2''} \<and> is_digit b
         then [(10 * digit_val a + digit_val b, r)] else [])
      | _ \<Rightarrow> [])
     @ (case s of a # b # r \<Rightarrow>
        (if a = CHR ''0'' \<and> is_digit b \<and> b \<noteq> CHR ''0'' then [(digit_val b, r)] else [])
      | _ \<Rightarrow> [])
     @ (case s of a # r \<Rightarrow>
        (if is_digit a \<and> a \<noteq> CHR ''0'' then [(digit_val a, r)] else [])
      | _ \<Rightarrow> [])
     @ (case s of a # b # r \<Rightarrow>
        (if a = CHR '' '' \<and> is_digit b \<and> b \<noteq> CHR ''0'' then [(digit_val b, r)] else [])
      | _ \<Rightarrow> [])"

definition re_Y :: "string \<Rightarrow> (nat \<times> string) list" where
  "re_Y s =
     (case s of a # b # c # d # r \<Rightarrow>
        (if is_digit a \<and> is_digit b \<and> is_digit c \<and> is_digit d
         then [(1000 * digit_val a + 100 * digit_val b + 10 * digit_val c + digit_val d, r)]
         else [])
      | _ \<Rightarrow> [])"

definition re_slash :: "string \<Rightarrow> string list" where
  "re_slash s = (case s of a # r \<Rightarrow> (if a = CHR ''/'' then [r] else []) | _ \<Rightarrow> [])"

text \<open>All matches of the whole expression at the start of \<open>s\<close>, first found first:
  month, day, year and the unconsumed rest.\<close>

definition format_regex_match :: "string \<Rightarrow> (nat \<times> nat \<times> nat \<times> string) list" where
  "format_regex_match s =
     concat (map (\<lambda>(m, r1).
       concat (map (\<lambda>r2.
         concat (map (\<lambda>(d, r3).
           concat (map (\<lambda>r4.
             map (\<lambda>(y, r5). (m, d, y, r5)) (re_Y r4))
           (re_slash r3)))
         (re_d r2)))
       (re_slash r1)))
     (re_m s))"

definition is_leap :: "nat \<Rightarrow> bool" where
  "is_leap y = (y mod 4 = 0 \<and> (y mod 100 \<noteq> 0 \<or> y mod 400 = 0))"

definition days_in_month :: "nat \<Rightarrow> nat \<Rightarrow> nat" where
  "days_in_month y m =
     (if m = 2 then (if is_leap y then 29 else 28)
      else if m = 4 \<or> m = 6 \<or> m = 9 \<or> m = 11 then 30 else 31)"

text \<open>\<open>strptime\<close> with the format \<open>%m/%d/%Y\<close>: the (year, month, day) of the date, or
  \<open>ValueError\<close>.  The date constructor rejects year 0 and a day beyond the month.\<close>

definition strptime_mdY :: "string \<Rightarrow> py_exc + (nat \<times> nat \<times> nat)" where
  "strptime_mdY s =
     (case format_regex_match s of
        [] \<Rightarrow> Inl (ValueError ''time data does not match format'')
      | (m, d, y, rest) # _ \<Rightarrow>
          if rest \<noteq> [] then Inl (ValueError ''unconverted data remains'')
          else if y < 1 then Inl (ValueError ''year is out of range'')
          else if days_in_month y m < d then Inl (ValueError ''day is out of range for month'')
          else Inr (y, m, d))"

text \<open>\<open>strftime("%Y-%m-%d")\<close>: the year on four digits, month and day on two.\<close>

definition strftime_Ymd :: "nat \<times> nat \<times> nat \<Rightarrow> string" where
  "strftime_Ymd ymd =
     (case ymd of (y, m, d) \<Rightarrow>
        [digit_char (y div 1000), digit_char (y div 100 mod 10),
         digit_char (y div 10 mod 10), digit_char (y mod 10), CHR ''-'',
         digit_char (m div 10), digit_char (m mod 10), CHR ''-'',
         digit_char (d div 10), digit_char (d mod 10)])"

text \<open>What a script prints and which requests it sends, in order.\<close>

datatype request =
    GET_ticket int
  | POST_hrms_login
  | POST_hrms_report string
  | GET_search string string string
  | GET_requester json
  | GET_agent json
  | POST_place_request json

datatype event =
    Print string
  | PrintExc string py_exc
  | PrintVal string json
  | Request request
  | Sleep nat

type_synonym 'a io = "event list \<Rightarrow> (py_exc + 'a) \<times> event list"

definition ret :: "'a \<Rightarrow> 'a io" where
  "ret x tr = (Inr x, tr)"

definition raise :: "py_exc \<Rightarrow> 'a io" where
  "raise e tr = (Inl e, tr)"

definition bind :: "'a io \<Rightarrow> ('a \<Rightarrow> 'b io) \<Rightarrow> 'b io" where
  "bind m f tr = (case m tr of (Inl e, tr') \<Rightarrow> (Inl e, tr') | (Inr x, tr') \<Rightarrow> f x tr')"

definition emit :: "event \<Rightarrow> unit io" where
  "emit e tr = (Inr (), tr @ [e])"

text \<open>\<open>try: m except ...: h\<close>; the handler \<open>h e\<close> is \<open>None\<close> when no \<open>except\<close> clause
  matches the class of \<open>e\<close>, and the exception propagates.\<close>

definition try_except :: "'a io \<Rightarrow> (py_exc \<Rightarrow> 'a io option) \<Rightarrow> 'a io" where
  "try_except m h tr =
     (case m tr of
        (Inl e, tr') \<Rightarrow> (case h e of None \<Rightarrow> (Inl e, tr') | Some k \<Rightarrow> k tr')
      | (Inr x, tr') \<Rightarrow> (Inr x, tr'))"

text \<open>The exception classes the scripts catch.  \<open>response.json()\<close> raises
  \<open>requests.JSONDecodeError\<close>, which is also a \<open>ValueError\<close>.\<close>

definition is_ValueError :: "py_exc \<Rightarrow> bool" where
  "is_ValueError e = (case e of ValueError _ \<Rightarrow> True | JSONDecodeError \<Rightarrow> True | _ \<Rightarrow> False)"

definition is_HTTPError :: "py_exc \<Rightarrow> bool" where
  "is_HTTPError e = (case e of HTTPError _ \<Rightarrow> True | _ \<Rightarrow> False)"

definition convert_date_format :: "string \<Rightarrow> string io" where
  "convert_date_format date_str0 =
     (let date_str = py_strip date_str0
      in try_except
           (case strptime_mdY date_str of
              Inl e \<Rightarrow> raise e
            | Inr ymd \<Rightarrow> ret (strftime_Ymd ymd))
           (\<lambda>e. if is_ValueError e
                 then Some (bind (emit (Print (''Error converting date: '' @ date_str)))
                                 (\<lambda>_. raise e))
                 else None))"

section \<open>Python operations on decoded documents\<close>

text \<open>\<open>x[key]\<close> with a string key.\<close>

definition py_getitem :: "json \<Rightarrow> string \<Rightarrow> json io" where
  "py_getitem x key =
     (case x of
        JObj kvs \<Rightarrow> (case map_of kvs key of Some v \<Rightarrow> ret v | None \<Rightarrow> raise (KeyError key))
      | _ \<Rightarrow> raise (TypeError ''not subscriptable with a string key''))"

text \<open>\<open>x.get(key, default)\<close>; only a dict has the method.\<close>

definition py_get_default :: "json \<Rightarrow> string \<Rightarrow> json \<Rightarrow> json io" where
  "py_get_default x key dflt =
     (case x of
        JObj kvs \<Rightarrow> (case map_of kvs key of Some v \<Rightarrow> ret v | None \<Rightarrow> ret dflt)
      | _ \<Rightarrow> raise (AttributeError ''get''))"

definition py_get :: "json \<Rightarrow> string \<Rightarrow> json io" where
  "py_get x key = py_get_default x key JNull"

text \<open>Truth value of an object, as \<open>if x\<close> and \<open>not x\<close> test it.\<close>

definition py_truthy :: "json \<Rightarrow> bool" where
  "py_truthy x =
     (case x of
        JNull \<Rightarrow> False
      | JBool b \<Rightarrow> b
      | JNum n \<Rightarrow> n \<noteq> 0
      | JStr s \<Rightarrow> s \<noteq> []
      | JArr xs \<Rightarrow> xs \<noteq> []
      | JObj kvs \<Rightarrow> kvs \<noteq> [])"

text \<open>\<open>x[0]\<close>.\<close>

definition py_index0 :: "json \<Rightarrow> json io" where
  "py_index0 x =
     (case x of
        JArr xs \<Rightarrow> (case xs of [] \<Rightarrow> raise IndexError | y # _ \<Rightarrow> ret y)
      | JStr s \<Rightarrow> (case s of [] \<Rightarrow> raise IndexError | c # _ \<Rightarrow> ret (JStr [c]))
      | JObj kvs \<Rightarrow> raise (KeyError ''0'')
      | _ \<Rightarrow> raise (TypeError ''not subscriptable''))"

text \<open>\<open>str.lower\<close> on one code point below 256.\<close>

definition char_lower :: "char \<Rightarrow> char" where
  "char_lower c =
     (let n = (of_char c :: nat)
      in if (65 \<le> n \<and> n \<le> 90) \<or> (192 \<le> n \<and> n \<le> 222 \<and> n \<noteq> 215)
         then char_of (n + 32) else c)"

section \<open>The services\<close>

text \<open>
  A service answers a request with a response, or the transport fails with an exception
  (\<open>requests.ConnectionError\<close>).  The domain, the credentials and the headers built from
  them are configuration and do not appear in a request.
\<close>

type_synonym world = "request \<Rightarrow> py_exc + response"

definition http :: "world \<Rightarrow> request \<Rightarrow> response io" where
  "http w req tr = (w req, tr @ [Request req])"

text \<open>\<open>response.raise_for_status()\<close> raises \<open>HTTPError\<close> for the statuses 400 to 599 only.\<close>

definition raise_for_status :: "response \<Rightarrow> unit io" where
  "raise_for_status r =
     (if 400 \<le> status_code r \<and> status_code r < 600 then raise (HTTPError r) else ret ())"

definition response_json :: "response \<Rightarrow> json io" where
  "response_json r = (case parsed r of None \<Rightarrow> raise JSONDecodeError | Some j \<Rightarrow> ret j)"

text \<open>The three prints of an \<open>except requests.HTTPError as e\<close> clause.\<close>

definition print_http_error :: "string \<Rightarrow> py_exc \<Rightarrow> unit io" where
  "print_http_error label e =
     bind (emit (PrintExc label e)) (\<lambda>_.
     bind (emit (Print ''Response Content:'')) (\<lambda>_.
     emit (Print (case e of HTTPError r \<Rightarrow> resp_text r | _ \<Rightarrow> []))))"

section \<open>freshservice\_hrms\_termination.py: the Freshservice lookups\<close>

text \<open>The helper \<open>search_api\<close> of \<open>fetch_requester_info\<close>; the URL it prints is the URL of
  the request that follows.\<close>

definition search_api :: "world \<Rightarrow> string \<Rightarrow> string \<Rightarrow> string \<Rightarrow> json io" where
  "search_api w email endpoint field_name =
     bind (emit (Print ''Request URL'')) (\<lambda>_.
     bind (http w (GET_search endpoint field_name email)) (\<lambda>response.
     bind (raise_for_status response) (\<lambda>_.
     response_json response)))"

text \<open>One of the two \<open>try\<close> blocks of \<open>fetch_requester_info\<close>: \<open>Some\<close> is its \<open>return\<close>,
  \<open>None\<close> is falling through to the code after the block.\<close>

definition search_namespace ::
  "world \<Rightarrow> string \<Rightarrow> string \<Rightarrow> string \<Rightarrow> string \<Rightarrow> string \<Rightarrow> string
     \<Rightarrow> (json \<times> json \<times> string) option io" where
  "search_namespace w email endpoint field_name list_key user_type label =
     try_except
       (bind (search_api w email endpoint field_name) (\<lambda>response_json.
        bind (py_get response_json list_key) (\<lambda>found.
        if py_truthy found then
          bind (py_index0 found) (\<lambda>requester.
          bind (py_getitem requester ''id'') (\<lambda>requester_id.
          bind (py_get requester ''reporting_manager_id'') (\<lambda>manager_id.
          ret (Some (requester_id, manager_id, user_type)))))
        else ret None)))
       (\<lambda>e. if is_HTTPError e
             then Some (bind (print_http_error label e) (\<lambda>_. ret None))
             else None)"

definition fetch_requester_info :: "world \<Rightarrow> string \<Rightarrow> (json \<times> json \<times> string) io" where
  "fetch_requester_info w email0 =
     (let email = map char_lower email0
      in bind (search_namespace w email ''requesters'' ''primary_email'' ''requesters''
                 ''requester'' ''Error searching requesters: '') (\<lambda>r.
         case r of
           Some res \<Rightarrow> ret res
         | None \<Rightarrow>
             bind (search_namespace w email ''agents'' ''email'' ''agents''
                     ''agent'' ''Error searching agents: '') (\<lambda>r.
             case r of
               Some res \<Rightarrow> ret res
             | None \<Rightarrow>
                 bind (emit (Print ''No user found with the given email.'')) (\<lambda>_.
                 raise (ValueError ''User not found in both requesters and agents'')))))"

text \<open>A function that ends without \<open>return\<close> returns \<open>None\<close>.\<close>

definition fetch_manager_email :: "world \<Rightarrow> json \<Rightarrow> json io" where
  "fetch_manager_email w manager_id =
     bind (http w (GET_requester manager_id)) (\<lambda>response.
     if status_code response = 200 then
       bind (response_json response) (\<lambda>response_json.
       bind (py_getitem response_json ''requester'') (\<lambda>requester.
       bind (py_getitem requester ''primary_email'') (\<lambda>manager_email.
       bind (emit (PrintVal ''Manager found as requester. Email: '' manager_email)) (\<lambda>_.
       ret manager_email))))
     else if status_code response = 404 then
       bind (http w (GET_agent manager_id)) (\<lambda>response.
       if status_code response = 200 then
         bind (response_json response) (\<lambda>response_json.
         bind (py_getitem response_json ''agent'') (\<lambda>agent.
         bind (py_getitem agent ''email'') (\<lambda>manager_email.
         bind (emit (PrintVal ''Manager found as agent. Email: '' manager_email)) (\<lambda>_.
         ret manager_email))))
       else
         bind (emit (Print ''Manager not found as agent.'')) (\<lambda>_.
         bind (raise_for_status response) (\<lambda>_.
         ret JNull)))
     else
       bind (emit (Print ''Failed to fetch manager.'')) (\<lambda>_.
       bind (raise_for_status response) (\<lambda>_.
       ret JNull)))"

text \<open>A computation is quiet when it sends no request: it only prints.\<close>

definition quiet :: "'a io \<Rightarrow> bool" where
  "quiet m = (\<forall>tr. \<exists>res ev. m tr = (res, tr @ ev) \<and> (\<forall>rq. Request rq \<notin> set ev))"

text \<open>A service that knows the manager as an agent only.\<close>

definition agent_only_world :: world where
  "agent_only_world rq =
     (case rq of
        GET_agent _ \<Rightarrow>
          Inr \<lparr>status_code = 200, resp_text = [],
               parsed = Some (JObj [(''agent'', JObj [(''email'', JStr ''boss@x.org'')])])\<rparr>
      | _ \<Rightarrow> Inr \<lparr>status_code = 404, resp_text = [], parsed = None\<rparr>)"

section \<open>Properties of the scripts\<close>

subsection \<open>Lookups in the Requesters and Agents namespaces\<close>

lemma search_api_ok:
  assumes "w (GET_search ep fld em) = Inr r"
    and "\<not> (400 \<le> status_code r \<and> status_code r < 600)"
    and "parsed r = Some j"
  shows "search_api w em ep fld tr =
           (Inr j, tr @ [Print ''Request URL'', Request (GET_search ep fld em)])"
  using assms
  by (auto simp add: search_api_def bind_def emit_def http_def raise_for_status_def
      response_json_def ret_def)

lemma search_namespace_found:
  assumes "w (GET_search ep fld em) = Inr r"
    and "\<not> (400 \<le> status_code r \<and> status_code r < 600)"
    and "parsed r = Some (JObj kvs)"
    and "map_of kvs lk = Some (JArr (JObj rq # rest))"
    and "map_of rq ''id'' = Some rid"
  shows "search_namespace w em ep fld lk ut lbl tr =
           (Inr (Some (rid,
                   (case map_of rq ''reporting_manager_id'' of Some m \<Rightarrow> m | None \<Rightarrow> JNull), ut)),
            tr @ [Print ''Request URL'', Request (GET_search ep fld em)])"
proof -
  have s: "search_api w em ep fld tr =
      (Inr (JObj kvs), tr @ [Print ''Request URL'', Request (GET_search ep fld em)])"
    using assms(1,2,3) by (rule search_api_ok)
  show ?thesis
    using assms(4,5)
    by (simp add: search_namespace_def try_except_def bind_def s
      py_get_def py_get_default_def py_truthy_def py_index0_def
      py_getitem_def ret_def split: option.splits)
qed

text \<open>
  Claim C9.  When the search of the Requesters namespace succeeds (no 4xx/5xx status, a
  JSON object as body) and its \<open>requesters\<close> list is not empty, \<open>fetch_requester_info\<close>
  returns the id and the \<open>reporting_manager_id\<close> of the first requester with the user
  type \<open>requester\<close>.  The run sends exactly one request, the search of the Requesters
  namespace: the Agents namespace is never queried.
\<close>

theorem fetch_requester_info_requester_first:
  assumes "w (GET_search ''requesters'' ''primary_email'' (map char_lower email)) = Inr r"
    and "\<not> (400 \<le> status_code r \<and> status_code r < 600)"
    and "parsed r = Some (JObj kvs)"
    and "map_of kvs ''requesters'' = Some (JArr (JObj rq # rest))"
    and "map_of rq ''id'' = Some rid"
  shows "fetch_requester_info w email tr =
           (Inr (rid, (case map_of rq ''reporting_manager_id'' of Some m \<Rightarrow> m | None \<Rightarrow> JNull),
                 ''requester''),
            tr @ [Print ''Request URL'',
                  Request (GET_search ''requesters'' ''primary_email'' (map char_lower email))])"
proof -
  have s: "search_namespace w (map char_lower email) ''requesters'' ''primary_email''
             ''requesters'' ''requester'' ''Error searching requesters: '' tr =
           (Inr (Some (rid,
                   (case map_of rq ''reporting_manager_id'' of Some m \<Rightarrow> m | None \<Rightarrow> JNull),
                 ''requester'')),
            tr @ [Print ''Request URL'',
                  Request (GET_search ''requesters'' ''primary_email'' (map char_lower email))])"
    using assms by (rule search_namespace_found)
  show ?thesis
    by (simp add: fetch_requester_info_def Let_def bind_def ret_def s)
qed

theorem fetch_requester_info_requester_first_witness:
  "fetch_requester_info
     (\<lambda>req. Inr \<lparr>status_code = 200, resp_text = [],
                 parsed = Some (JObj [(''requesters'',
                   JArr [JObj [(''id'', JNum 7), (''reporting_manager_id'', JNum 9)]])])\<rparr>)
     ''a@x.org'' [] =
   (Inr (JNum 7, JNum 9, ''requester''),
    [Print ''Request URL'',
     Request (GET_search ''requesters'' ''primary_email'' (map char_lower ''a@x.org''))])"
  using fetch_requester_info_requester_first
    [of "\<lambda>req. Inr \<lparr>status_code = 200, resp_text = [],
                 parsed = Some (JObj [(''requesters'',
                   JArr [JObj [(''id'', JNum 7), (''reporting_manager_id'', JNum 9)]])])\<rparr>"
        "''a@x.org''"
        "\<lparr>status_code = 200, resp_text = [],
                 parsed = Some (JObj [(''requesters'',
                   JArr [JObj [(''id'', JNum 7), (''reporting_manager_id'', JNum 9)]])])\<rparr>"
        "[(''requesters'', JArr [JObj [(''id'', JNum 7), (''reporting_manager_id'', JNum 9)]])]"
        "[(''id'', JNum 7), (''reporting_manager_id'', JNum 9)]" "[]" "JNum 7" "[]"]
  by simp

subsection \<open>The manager's email\<close>

lemma quiet_ret: "quiet (ret x)"
  by (simp add: quiet_def ret_def)

lemma quiet_raise: "quiet (raise e)"
  by (simp add: quiet_def raise_def)

lemma quiet_emit_Print: "quiet (emit (Print s))"
  by (simp add: quiet_def emit_def)

lemma quiet_emit_PrintVal: "quiet (emit (PrintVal s v))"
  by (simp add: quiet_def emit_def)

lemma quiet_bind: 
  assumes "quiet m" and "\<And>x. quiet (f x)" shows "quiet (bind m f)"
  unfolding quiet_def
proof 
  fix tr
  from assms(1) obtain res ev where m: "m tr = (res, tr @ ev)" "\<forall>rq. Request rq \<notin> set ev"
    unfolding quiet_def by blast
  show "\<exists>res ev. bind m f tr = (res, tr @ ev) \<and> (\<forall>rq. Request rq \<notin> set ev)"
  proof (cases res)
    case (Inl e)
    then show ?thesis using m by (simp add: bind_def)
  next
    case (Inr x)
    from assms(2)[of x] obtain res' ev' where f: "f x (tr @ ev) = (res', (tr @ ev) @ ev')" "\<forall>rq. Request rq \<notin> set ev'"
      unfolding quiet_def by blast
    then show ?thesis using m Inr by (auto simp add: bind_def)
  qed
qed

lemma quiet_py_getitem: "quiet (py_getitem x k)"
  by (cases x) (auto simp: py_getitem_def quiet_ret quiet_raise split: option.splits)

lemma quiet_response_json: "quiet (response_json r)"
  by (auto simp: response_json_def quiet_ret quiet_raise split: option.splits)

lemma quiet_raise_for_status: "quiet (raise_for_status r)"
  by (auto simp: raise_for_status_def quiet_ret quiet_raise)

lemmas quiet_intros = quiet_bind quiet_ret quiet_raise quiet_emit_Print quiet_emit_PrintVal
  quiet_py_getitem quiet_response_json quiet_raise_for_status

lemma http_bind:
  "bind (http w rq) f tr = (case w rq of Inl e \<Rightarrow> (Inl e, tr @ [Request rq]) | Inr r \<Rightarrow> f r (tr @ [Request rq]))"
  by (simp add: bind_def http_def split: sum.splits)

lemma quiet_extract: "quiet (bind (response_json r) (\<lambda>j.
       bind (py_getitem j k1) (\<lambda>a.
       bind (py_getitem a k2) (\<lambda>e.
       bind (emit (PrintVal lbl e)) (\<lambda>_. ret e)))))"
  by (intro quiet_intros)

lemma quiet_fail: "quiet (bind (emit (Print s)) (\<lambda>_. bind (raise_for_status r) (\<lambda>_. ret JNull)))"
  by (intro quiet_intros)


lemma fme_unfold:
  "fetch_manager_email w mid tr =
     (case w (GET_requester mid) of
        Inl e \<Rightarrow> (Inl e, tr @ [Request (GET_requester mid)])
      | Inr r \<Rightarrow>
          (if status_code r = 200 then
             bind (response_json r) (\<lambda>j.
             bind (py_getitem j ''requester'') (\<lambda>a.
             bind (py_getitem a ''primary_email'') (\<lambda>e.
             bind (emit (PrintVal ''Manager found as requester. Email: '' e)) (\<lambda>_. ret e))))
               (tr @ [Request (GET_requester mid)])
           else if status_code r = 404 then
             (case w (GET_agent mid) of
                Inl e \<Rightarrow> (Inl e, tr @ [Request (GET_requester mid), Request (GET_agent mid)])
              | Inr r' \<Rightarrow>
                  (if status_code r' = 200 then
                     bind (response_json r') (\<lambda>j.
                     bind (py_getitem j ''agent'') (\<lambda>a.
                     bind (py_getitem a ''email'') (\<lambda>e.
                     bind (emit (PrintVal ''Manager found as agent. Email: '' e)) (\<lambda>_. ret e))))
                       (tr @ [Request (GET_requester mid), Request (GET_agent mid)])
                   else
                     bind (emit (Print ''Manager not found as agent.'')) (\<lambda>_.
                     bind (raise_for_status r') (\<lambda>_. ret JNull))
                       (tr @ [Request (GET_requester mid), Request (GET_agent mid)])))
           else
             bind (emit (Print ''Failed to fetch manager.'')) (\<lambda>_.
             bind (raise_for_status r) (\<lambda>_. ret JNull))
               (tr @ [Request (GET_requester mid)])))"
  by (simp add: fetch_manager_email_def http_bind split: sum.splits)

lemma quietD: "quiet m \<Longrightarrow> \<exists>res ev. m tr = (res, tr @ ev) \<and> (\<forall>rq. Request rq \<notin> set ev)"
  by (simp add: quiet_def)

lemma fme_agent_email:
  assumes "w (GET_requester mid) = Inr r" "status_code r = 404"
    and "w (GET_agent mid) = Inr r'" "status_code r' = 200"
    and "parsed r' = Some (JObj kvs)" "map_of kvs ''agent'' = Some (JObj ag)"
    and "map_of ag ''email'' = Some e"
  shows "fetch_manager_email w mid tr =
      (Inr e, tr @ [Request (GET_requester mid), Request (GET_agent mid),
                    PrintVal ''Manager found as agent. Email: '' e])"
  using assms
  by (simp add: fme_unfold bind_def response_json_def py_getitem_def ret_def emit_def)

text \<open>
  Claim C8.  \<open>fetch_manager_email\<close> sends its first request to the requester-by-id
  endpoint.  It sends a request to the agent-by-id endpoint exactly when the requester
  lookup answered with status 404, and when that agent lookup answers 200 with an agent
  record, the result is the \<open>email\<close> field of the agent record.
\<close>

theorem fetch_manager_email_fallback:
  "\<exists>res ev. fetch_manager_email w mid tr = (res, tr @ Request (GET_requester mid) # ev)
      \<and> (Request (GET_agent mid) \<in> set ev \<longleftrightarrow>
           (\<exists>r. w (GET_requester mid) = Inr r \<and> status_code r = 404))
      \<and> (\<forall>r r' kvs ag e. w (GET_requester mid) = Inr r \<and> status_code r = 404 \<and>
             w (GET_agent mid) = Inr r' \<and> status_code r' = 200 \<and>
             parsed r' = Some (JObj kvs) \<and> map_of kvs ''agent'' = Some (JObj ag) \<and>
             map_of ag ''email'' = Some e \<longrightarrow> res = Inr e)"
proof (cases "w (GET_requester mid)")
  case (Inl e)
  then show ?thesis by (simp add: fme_unfold)
next
  case (Inr r)
  consider (ok) "status_code r = 200" | (nf) "status_code r = 404"
    | (other) "status_code r \<noteq> 200" "status_code r \<noteq> 404" by blast
  then show ?thesis
  proof cases
    case ok
    from quietD[OF quiet_extract, of r "''requester''" "''primary_email''"
        "''Manager found as requester. Email: ''" "tr @ [Request (GET_requester mid)]"]
    obtain res ev where "bind (response_json r) (\<lambda>j.
             bind (py_getitem j ''requester'') (\<lambda>a.
             bind (py_getitem a ''primary_email'') (\<lambda>e.
             bind (emit (PrintVal ''Manager found as requester. Email: '' e)) (\<lambda>_. ret e))))
               (tr @ [Request (GET_requester mid)]) = (res, (tr @ [Request (GET_requester mid)]) @ ev)"
      and "\<forall>rq. Request rq \<notin> set ev" by blast
    then show ?thesis using Inr ok by (simp add: fme_unfold)
  next
    case other
    from quietD[OF quiet_fail, of "''Failed to fetch manager.''" r "tr @ [Request (GET_requester mid)]"]
    obtain res ev where "bind (emit (Print ''Failed to fetch manager.'')) (\<lambda>_.
             bind (raise_for_status r) (\<lambda>_. ret JNull))
               (tr @ [Request (GET_requester mid)]) = (res, (tr @ [Request (GET_requester mid)]) @ ev)"
      and "\<forall>rq. Request rq \<notin> set ev" by blast
    then show ?thesis using Inr other by (simp add: fme_unfold)
  next
    case nf
    show ?thesis
    proof (cases "w (GET_agent mid)")
      case (Inl e)
      then show ?thesis using Inr nf by (simp add: fme_unfold)
    next
      case r': (Inr r')
      show ?thesis
      proof (cases "status_code r' = 200")
        case False
        from quietD[OF quiet_fail, of "''Manager not found as agent.''" r'
            "tr @ [Request (GET_requester mid), Request (GET_agent mid)]"]
        obtain res ev where "bind (emit (Print ''Manager not found as agent.'')) (\<lambda>_.
                     bind (raise_for_status r') (\<lambda>_. ret JNull))
                       (tr @ [Request (GET_requester mid), Request (GET_agent mid)])
               = (res, (tr @ [Request (GET_requester mid), Request (GET_agent mid)]) @ ev)"
          by blast
        then show ?thesis using Inr nf r' False by (simp add: fme_unfold)
      next
        case True
        from quietD[OF quiet_extract, of r' "''agent''" "''email''"
            "''Manager found as agent. Email: ''"
            "tr @ [Request (GET_requester mid), Request (GET_agent mid)]"]
        obtain res ev where *: "bind (response_json r') (\<lambda>j.
                     bind (py_getitem j ''agent'') (\<lambda>a.
                     bind (py_getitem a ''email'') (\<lambda>e.
                     bind (emit (PrintVal ''Manager found as agent. Email: '' e)) (\<lambda>_. ret e))))
                       (tr @ [Request (GET_requester mid), Request (GET_agent mid)])
               = (res, (tr @ [Request (GET_requester mid), Request (GET_agent mid)]) @ ev)"
          by blast
        have f: "fetch_manager_email w mid tr =
                 (res, tr @ Request (GET_requester mid) # Request (GET_agent mid) # ev)"
          using Inr nf r' True * by (simp add: fme_unfold)
        have "res = Inr e" if "parsed r' = Some (JObj kvs)" "map_of kvs ''agent'' = Some (JObj ag)"
           "map_of ag ''email'' = Some e" for kvs ag e
          using fme_agent_email[OF Inr nf r' True that, of tr] f by simp
        then show ?thesis using f Inr nf r' True by auto
      qed
    qed
  qed
qed

theorem fetch_manager_email_fallback_witness:
  "fst (fetch_manager_email agent_only_world (JNum 5) []) = Inr (JStr ''boss@x.org'')"
proof -
  from fetch_manager_email_fallback[of agent_only_world "JNum 5" "[]"]
  obtain res ev where a: "fetch_manager_email agent_only_world (JNum 5) [] =
      (res, [] @ Request (GET_requester (JNum 5)) # ev)"
    and c: "\<forall>r r' kvs ag e. agent_only_world (GET_requester (JNum 5)) = Inr r \<and>
             status_code r = 404 \<and>
             agent_only_world (GET_agent (JNum 5)) = Inr r' \<and> status_code r' = 200 \<and>
             parsed r' = Some (JObj kvs) \<and> map_of kvs ''agent'' = Some (JObj ag) \<and>
             map_of ag ''email'' = Some e \<longrightarrow> res = Inr e"
    by blast
  from c[rule_format, of "\<lparr>status_code = 404, resp_text = [], parsed = None\<rparr>"
      "\<lparr>status_code = 200, resp_text = [],
               parsed = Some (JObj [(''agent'', JObj [(''email'', JStr ''boss@x.org'')])])\<rparr>"
      "[(''agent'', JObj [(''email'', JStr ''boss@x.org'')])]"
      "[(''email'', JStr ''boss@x.org'')]" "JStr ''boss@x.org''"]
  have "res = Inr (JStr ''boss@x.org'')" by (simp add: agent_only_world_def)
  then show ?thesis using a by simp
qed

end
